theory Spec2Isabelle
  imports Main
begin

section \<open>The string functions of Go that the handlers use\<close>

text \<open>
  A Go \<^verbatim>\<open>string\<close> is a sequence of bytes; it is modelled as a \<^typ>\<open>string\<close>
  (a list of \<^typ>\<open>char\<close>). Every function below follows the documented behaviour of
  the function of package \<^verbatim>\<open>strings\<close> that carries the same name.
\<close>

definition HasPrefix :: "string \<Rightarrow> string \<Rightarrow> bool" where
  "HasPrefix s prefix = (take (length prefix) s = prefix)"

definition HasSuffix :: "string \<Rightarrow> string \<Rightarrow> bool" where
  "HasSuffix s suffix =
     (length suffix \<le> length s \<and> drop (length s - length suffix) s = suffix)"

definition TrimPrefix :: "string \<Rightarrow> string \<Rightarrow> string" where
  "TrimPrefix s prefix = (if HasPrefix s prefix then drop (length prefix) s else s)"

definition TrimSuffix :: "string \<Rightarrow> string \<Rightarrow> string" where
  "TrimSuffix s suffix =
     (if HasSuffix s suffix then take (length s - length suffix) s else s)"

text \<open>\<^verbatim>\<open>strings.IndexByte(s, c)\<close>: the index of the first \<open>c\<close>, \<open>None\<close> for Go's \<open>-1\<close>.\<close>

fun IndexByte :: "string \<Rightarrow> char \<Rightarrow> nat option" where
  "IndexByte [] c = None"
| "IndexByte (x # xs) c =
     (if x = c then Some 0
      else (case IndexByte xs c of None \<Rightarrow> None | Some i \<Rightarrow> Some (Suc i)))"

text \<open>\<^verbatim>\<open>strings.Contains(s, substr)\<close>: \<open>substr\<close> starts at some position of \<open>s\<close>.\<close>

fun Contains :: "string \<Rightarrow> string \<Rightarrow> bool" where
  "Contains [] substr = (substr = [])"
| "Contains (x # xs) substr = (HasPrefix (x # xs) substr \<or> Contains xs substr)"

text \<open>
  \<^verbatim>\<open>strings.Split(s, sep)\<close> for a separator of one byte: the pieces between the
  separators, so one piece more than there are separators (the empty string gives one
  empty piece).
\<close>

fun Split :: "string \<Rightarrow> char \<Rightarrow> string list" where
  "Split [] sep = [[]]"
| "Split (x # xs) sep =
     (if x = sep then [] # Split xs sep
      else (case Split xs sep of
              [] \<Rightarrow> [[x]]
            | piece # pieces \<Rightarrow> (x # piece) # pieces))"

text \<open>
  \<^verbatim>\<open>strings.SplitN(s, sep, 2)\<close> for a separator of one byte: at most two pieces, the
  second one being everything after the first separator.
\<close>

definition SplitN2 :: "string \<Rightarrow> char \<Rightarrow> string list" where
  "SplitN2 s sep =
     (case IndexByte s sep of
        None \<Rightarrow> [s]
      | Some i \<Rightarrow> [take i s, drop (Suc i) s])"

text \<open>\<^verbatim>\<open>strings.Join(elems, sep)\<close>.\<close>

fun Join :: "string list \<Rightarrow> string \<Rightarrow> string" where
  "Join [] sep = []"
| "Join [e] sep = e"
| "Join (e # e' # es) sep = e @ sep @ Join (e' # es) sep"

section \<open>Constants of the packages that \<^verbatim>\<open>details.go\<close> imports\<close>

text \<open>\<^verbatim>\<open>unknownModulePath\<close>, \<^verbatim>\<open>details.go\<close> line 30.\<close>

definition unknownModulePath :: string where
  "unknownModulePath = ''<unknown>''"

text \<open>
  Modelled from the spec: \<^verbatim>\<open>internal.LatestVersion\<close> is declared in package
  \<^verbatim>\<open>internal\<close>, outside the files at hand; it is the \<open>latest\<close> sentinel literal of
  the specification.
\<close>

definition LatestVersion :: string where
  "LatestVersion = ''latest''"

text \<open>
  Modelled from the spec: \<^verbatim>\<open>stdlib.ModulePath\<close> is declared in package
  \<^verbatim>\<open>stdlib\<close>, outside the files at hand; it is the standard-library sentinel, whose
  module root the specification addresses as \<^verbatim>\<open>/std\<close>.
\<close>

definition stdlib_ModulePath :: string where
  "stdlib_ModulePath = ''std''"

section \<open>Resolving a URL path: \<^verbatim>\<open>parseDetailsURLPath\<close>\<close>

text \<open>\<^verbatim>\<open>inStdLib\<close>, \<^verbatim>\<open>details.go\<close> lines 553 to 558.\<close>

definition inStdLib :: "string \<Rightarrow> bool" where
  "inStdLib path =
     (case IndexByte path CHR ''/'' of
        Some i \<Rightarrow> \<not> Contains (take i path) ''.''
      | None \<Rightarrow> \<not> Contains path ''.'')"

text \<open>
  The only error \<^verbatim>\<open>parseDetailsURLPath\<close> returns: the import path it computed is
  malformed. \<open>IndexOutOfRange\<close> stands for the panic of \<^verbatim>\<open>parts[0]\<close> or
  \<^verbatim>\<open>endParts[0]\<close> on an empty slice, which neither \<^verbatim>\<open>strings.SplitN\<close> nor
  \<^verbatim>\<open>strings.Split\<close> ever returns.
\<close>

datatype parse_error = MalformedPath string | IndexOutOfRange

text \<open>
  \<^verbatim>\<open>parseDetailsURLPath\<close>, \<^verbatim>\<open>details.go\<close> lines 348 to 384. The result is
  \<open>(pkgPath, modulePath, version)\<close>. \<^verbatim>\<open>module.CheckImportPath\<close> lives in package
  \<^verbatim>\<open>thirdparty/module\<close>, outside the files at hand, so the check is the parameter
  \<open>CheckImportPath\<close>: it holds of the paths for which the Go function returns \<^verbatim>\<open>nil\<close>.
\<close>

definition parseDetailsURLPath ::
  "(string \<Rightarrow> bool) \<Rightarrow> string \<Rightarrow> parse_error + (string \<times> string \<times> string)" where
  "parseDetailsURLPath CheckImportPath urlPath =
     (let parsed =
            (case SplitN2 urlPath CHR ''@'' of
               [] \<Rightarrow> Inl IndexOutOfRange
             | [part0] \<Rightarrow>
                 (let basePath = TrimSuffix (TrimPrefix part0 ''/'') ''/''
                  in Inr (basePath, unknownModulePath, LatestVersion))
             | part0 # part1 # _ \<Rightarrow>
                 (let basePath = TrimSuffix (TrimPrefix part0 ''/'') ''/''
                  in case Split part1 CHR ''/'' of
                       [] \<Rightarrow> Inl IndexOutOfRange
                     | version # rest \<Rightarrow>
                         (let suffix = Join rest ''/''
                          in if suffix = [] \<or> version = LatestVersion
                             then Inr (basePath, unknownModulePath, version)
                             else Inr (basePath @ ''/'' @ suffix, basePath, version))))
      in case parsed of
           Inl e \<Rightarrow> Inl e
         | Inr (pkgPath, modulePath, version) \<Rightarrow>
             if \<not> CheckImportPath pkgPath then Inl (MalformedPath pkgPath)
             else if inStdLib pkgPath then Inr (pkgPath, stdlib_ModulePath, version)
             else Inr (pkgPath, modulePath, version))"

text \<open>
  \<^verbatim>\<open>constructPackageURL\<close>, \<^verbatim>\<open>details.go\<close> lines 156 to 164; the two
  \<^verbatim>\<open>fmt.Sprintf\<close> calls only concatenate.
\<close>

definition constructPackageURL :: "string \<Rightarrow> string \<Rightarrow> string \<Rightarrow> string" where
  "constructPackageURL pkgPath modulePath version =
     (if version = LatestVersion then ''/'' @ pkgPath
      else if pkgPath = modulePath \<or> modulePath = stdlib_ModulePath
      then ''/'' @ pkgPath @ ''@'' @ version
      else ''/'' @ modulePath @ ''@'' @ version @ ''/'' @ TrimPrefix pkgPath (modulePath @ ''/''))"

text \<open>\<^verbatim>\<open>constructModuleURL\<close>, \<^verbatim>\<open>details.go\<close> lines 144 to 154.\<close>

definition constructModuleURL :: "string \<Rightarrow> string \<Rightarrow> string" where
  "constructModuleURL modulePath version =
     (let url = ''/'';
          url = (if modulePath \<noteq> stdlib_ModulePath then url @ ''mod/'' else url);
          url = url @ modulePath
      in if version \<noteq> LatestVersion then url @ ''@'' @ version else url)"


text \<open>
  Modelled from the spec: the syntax of a path, section 6 of the specification,
  \<^verbatim>\<open>segment(/segment)*\<close>: segments are non-empty and hold neither \<^verbatim>\<open>/\<close> nor
  \<^verbatim>\<open>@\<close>. \<^verbatim>\<open>module.CheckImportPath\<close>, which is outside the files at hand, accepts
  no other path; this predicate stands in for it wherever a concrete checker is needed.
\<close>

definition wellFormedPath :: "string \<Rightarrow> bool" where
  "wellFormedPath p = (CHR ''@'' \<notin> set p \<and> [] \<notin> set (Split p CHR ''/''))"

text \<open>The first slash-separated segment of a path.\<close>

definition firstSegment :: "string \<Rightarrow> string" where
  "firstSegment p = takeWhile (\<lambda>c. c \<noteq> CHR ''/'') p"

section \<open>Dispatch of an inbound path: \<^verbatim>\<open>handlePackageDetails\<close>\<close>

text \<open>
  What \<^verbatim>\<open>handlePackageDetails\<close>, \<^verbatim>\<open>details.go\<close> lines 53 to 76, does with the
  path of a request before it looks anything up: the index page, the module handler,
  an error page with status 400, the redirect of package \<^verbatim>\<open>C\<close>, or the lookup of a
  package with the path, module path and version parsed.
\<close>

datatype dispatch =
    StaticIndexPage
  | ModuleDetailsHandler
  | BadRequestPage
  | RedirectCgo
  | PackageLookup string string string

definition handlePackageDetails :: "(string \<Rightarrow> bool) \<Rightarrow> string \<Rightarrow> dispatch" where
  "handlePackageDetails CheckImportPath urlPath =
     (if urlPath = ''/'' then StaticIndexPage
      else if urlPath = ''/std'' \<or> HasPrefix urlPath ''/std@v'' then ModuleDetailsHandler
      else (case parseDetailsURLPath CheckImportPath urlPath of
              Inl e \<Rightarrow> BadRequestPage
            | Inr (pkgPath, modulePath, version) \<Rightarrow>
                if pkgPath = ''C'' then RedirectCgo
                else PackageLookup pkgPath modulePath version))"

section \<open>Fetching with a fallback to the latest version: \<^verbatim>\<open>fetchPackageOrModule\<close>\<close>

text \<open>
  The error of a data source call, as far as the handler looks at it: whether
  \<^verbatim>\<open>xerrors.Is(err, derrors.NotFound)\<close> holds or not.
\<close>

datatype ds_error = NotFound | OtherError

record errorPage =
  Message :: string
  SecondaryMessage :: string

text \<open>The status codes of \<^verbatim>\<open>net/http\<close> that the function returns.\<close>

definition StatusOK :: int where "StatusOK = 200"
definition StatusSeeOther :: int where "StatusSeeOther = 303"
definition StatusBadRequest :: int where "StatusBadRequest = 400"
definition StatusNotFound :: int where "StatusNotFound = 404"
definition StatusInternalServerError :: int where "StatusInternalServerError = 500"

text \<open>
  The calls \<^verbatim>\<open>fetchPackageOrModule\<close> makes to its collaborators, in the order it makes
  them: the exclusion predicate on a path, the lookup \<^verbatim>\<open>get\<close> on a version.
\<close>

datatype call = IsExcludedCall string | GetCall string

text \<open>\<^verbatim>\<open>strings.Title\<close> on the two words it is applied to.\<close>

definition Title :: "string \<Rightarrow> string" where
  "Title word =
     (if word = ''package'' then ''Package''
      else if word = ''module'' then ''Module'' else word)"

text \<open>
  \<^verbatim>\<open>fetchPackageOrModule\<close>, \<^verbatim>\<open>details.go\<close> lines 177 to 236. The result is the
  status code, the error page (\<open>None\<close> for \<^verbatim>\<open>nil\<close>) and the calls made. The
  collaborators are parameters: \<open>IsValid\<close> is \<^verbatim>\<open>semver.IsValid\<close>, \<open>quoted\<close> the
  verb \<^verbatim>\<open>%q\<close> of \<^verbatim>\<open>fmt\<close>, \<open>suggestedSearch\<close> the function of that name (all three
  outside the files at hand), \<open>IsExcluded\<close> is \<^verbatim>\<open>ds.IsExcluded\<close> with its error on the
  left, and \<open>get\<close> returns \<open>None\<close> for a \<^verbatim>\<open>nil\<close> error. The two calls of \<open>get\<close>
  have different arguments, so a function of the version covers every pair of
  outcomes. Logging is left out.
\<close>

definition fetchPackageOrModule ::
  "(string \<Rightarrow> bool) \<Rightarrow> (string \<Rightarrow> string) \<Rightarrow> (string \<Rightarrow> string) \<Rightarrow>
   (string \<Rightarrow> ds_error + bool) \<Rightarrow> string \<Rightarrow> string \<Rightarrow> string \<Rightarrow>
   (string \<Rightarrow> ds_error option) \<Rightarrow> (int \<times> errorPage option) \<times> call list" where
  "fetchPackageOrModule IsValid quoted suggestedSearch IsExcluded namespace path version get =
     (if version \<noteq> LatestVersion \<and> \<not> IsValid version then
        ((StatusBadRequest,
          Some \<lparr>Message = quoted version @ '' is not a valid semantic version.'',
                SecondaryMessage = (if namespace = ''pkg'' then suggestedSearch path else [])\<rparr>),
         [])
      else
        (case IsExcluded path of
           Inl err \<Rightarrow> ((StatusInternalServerError, None), [IsExcludedCall path])
         | Inr excluded \<Rightarrow>
             if excluded then ((StatusNotFound, None), [IsExcludedCall path])
             else
               (case get version of
                  None \<Rightarrow> ((StatusOK, None), [IsExcludedCall path, GetCall version])
                | Some err \<Rightarrow>
                    if err \<noteq> NotFound
                    then ((StatusInternalServerError, None),
                          [IsExcludedCall path, GetCall version])
                    else if version = LatestVersion
                    then ((StatusNotFound, None), [IsExcludedCall path, GetCall version])
                    else
                      (case get LatestVersion of
                         Some err' \<Rightarrow>
                           ((StatusNotFound, None),
                            [IsExcludedCall path, GetCall version, GetCall LatestVersion])
                       | None \<Rightarrow>
                           (let word = (if namespace = ''mod'' then ''module'' else ''package'');
                                urlPath = (if namespace = ''mod'' then ''/mod/'' @ path
                                           else ''/'' @ path)
                            in ((StatusSeeOther,
                                 Some \<lparr>Message = Title word @ '' '' @ path @ ''@'' @ version
                                          @ '' is not available.'',
                                       SecondaryMessage =
                                         ''There are other versions of this '' @ word
                                         @ '' that are! To view them, <a href='' @ [CHR 0x22]
                                         @ urlPath @ ''?tab=versions'' @ [CHR 0x22]
                                         @ ''>click here</a>.</p>''\<rparr>),
                                [IsExcludedCall path, GetCall version,
                                 GetCall LatestVersion]))))))"

text \<open>
  Modelled from the spec: \<^verbatim>\<open>semver.IsValid\<close> is outside the files at hand. Where a
  concrete validity check is needed, this one stands in: the letter \<^verbatim>\<open>v\<close> and three
  runs of digits separated by dots, the core of a syntactically valid semantic version.
\<close>

definition isDigits :: "string \<Rightarrow> bool" where
  "isDigits s = (s \<noteq> [] \<and> list_all (\<lambda>c. c \<in> set ''0123456789'') s)"

definition semverCore :: "string \<Rightarrow> bool" where
  "semverCore v =
     (case v of
        [] \<Rightarrow> False
      | c # numbers \<Rightarrow>
          c = CHR ''v'' \<and>
          (case Split numbers CHR ''.'' of
             [major, minor, patch] \<Rightarrow> isDigits major \<and> isDigits minor \<and> isDigits patch
           | _ \<Rightarrow> False))"

section \<open>The tab registries and the default tab\<close>

text \<open>\<^verbatim>\<open>TabSettings\<close>, \<^verbatim>\<open>details.go\<close> lines 387 to 401.\<close>

record TabSettings =
  Name :: string
  DisplayName :: string
  AlwaysShowDetails :: bool
  TemplateName :: string

text \<open>The registries, \<^verbatim>\<open>details.go\<close> lines 404 to 470.\<close>

definition packageTabSettings :: "TabSettings list" where
  "packageTabSettings =
     [\<lparr>Name = ''doc'', DisplayName = ''Doc'', AlwaysShowDetails = False,
       TemplateName = ''pkg_doc.tmpl''\<rparr>,
      \<lparr>Name = ''readme'', DisplayName = ''README'', AlwaysShowDetails = False,
       TemplateName = ''readme.tmpl''\<rparr>,
      \<lparr>Name = ''subdirectories'', DisplayName = ''Subdirectories'', AlwaysShowDetails = True,
       TemplateName = ''subdirectories.tmpl''\<rparr>,
      \<lparr>Name = ''versions'', DisplayName = ''Versions'', AlwaysShowDetails = True,
       TemplateName = ''versions.tmpl''\<rparr>,
      \<lparr>Name = ''imports'', DisplayName = ''Imports'', AlwaysShowDetails = True,
       TemplateName = ''pkg_imports.tmpl''\<rparr>,
      \<lparr>Name = ''importedby'', DisplayName = ''Imported By'', AlwaysShowDetails = True,
       TemplateName = ''pkg_importedby.tmpl''\<rparr>,
      \<lparr>Name = ''licenses'', DisplayName = ''Licenses'', AlwaysShowDetails = False,
       TemplateName = ''licenses.tmpl''\<rparr>]"

definition moduleTabSettings :: "TabSettings list" where
  "moduleTabSettings =
     [\<lparr>Name = ''readme'', DisplayName = ''README'', AlwaysShowDetails = False,
       TemplateName = ''readme.tmpl''\<rparr>,
      \<lparr>Name = ''packages'', DisplayName = ''Packages'', AlwaysShowDetails = True,
       TemplateName = ''subdirectories.tmpl''\<rparr>,
      \<lparr>Name = ''versions'', DisplayName = ''Versions'', AlwaysShowDetails = True,
       TemplateName = ''versions.tmpl''\<rparr>,
      \<lparr>Name = ''licenses'', DisplayName = ''Licenses'', AlwaysShowDetails = False,
       TemplateName = ''licenses.tmpl''\<rparr>]"

text \<open>The loops of \<^verbatim>\<open>init\<close>, lines 474 to 481: each entry is stored under its name.\<close>

definition tabLookup :: "TabSettings list \<Rightarrow> (string \<rightharpoonup> TabSettings)" where
  "tabLookup settings = fold (\<lambda>d m. m(Name d \<mapsto> d)) settings Map.empty"

definition packageTabLookup :: "string \<rightharpoonup> TabSettings" where
  "packageTabLookup = tabLookup packageTabSettings"

definition moduleTabLookup :: "string \<rightharpoonup> TabSettings" where
  "moduleTabLookup = tabLookup moduleTabSettings"

text \<open>Indexing a Go map with one result: the zero value where the key is missing.\<close>

definition zeroTabSettings :: TabSettings where
  "zeroTabSettings =
     \<lparr>Name = [], DisplayName = [], AlwaysShowDetails = False, TemplateName = []\<rparr>"

definition mapIndex :: "(string \<rightharpoonup> TabSettings) \<Rightarrow> string \<Rightarrow> TabSettings" where
  "mapIndex m k = (case m k of None \<Rightarrow> zeroTabSettings | Some v \<Rightarrow> v)"

text \<open>
  The choice of the tab in \<^verbatim>\<open>servePackagePage\<close>, lines 108 to 118: the argument
  \<open>tab\<close> is \<^verbatim>\<open>r.FormValue("tab")\<close> and \<open>isRedistributable\<close> is
  \<^verbatim>\<open>pkg.IsRedistributable()\<close>; the result is the tab, its settings and
  \<^verbatim>\<open>canShowDetails\<close>.
\<close>

definition servePackagePage_tab :: "string \<Rightarrow> bool \<Rightarrow> string \<times> TabSettings \<times> bool" where
  "servePackagePage_tab tab isRedistributable =
     (let (tab, settings) =
            (case packageTabLookup tab of
               Some settings \<Rightarrow> (tab, settings)
             | None \<Rightarrow>
                 (let tab = (if isRedistributable then ''doc'' else ''subdirectories'')
                  in (tab, mapIndex packageTabLookup tab)));
          canShowDetails = (isRedistributable \<or> AlwaysShowDetails settings)
      in (tab, settings, canShowDetails))"

text \<open>
  The choice of the tab in \<^verbatim>\<open>handleModuleDetails\<close>, lines 290 to 298, with
  \<open>isRedistributable\<close> for \<^verbatim>\<open>modHeader.IsRedistributable\<close>.
\<close>

definition handleModuleDetails_tab :: "string \<Rightarrow> bool \<Rightarrow> string \<times> TabSettings \<times> bool" where
  "handleModuleDetails_tab tab isRedistributable =
     (let (tab, settings) =
            (case moduleTabLookup tab of
               Some settings \<Rightarrow> (tab, settings)
             | None \<Rightarrow> (''readme'', mapIndex moduleTabLookup ''readme''));
          canShowDetails = (isRedistributable \<or> AlwaysShowDetails settings)
      in (tab, settings, canShowDetails))"

section \<open>Redistributability of a set of licenses\<close>

text \<open>\<^verbatim>\<open>LicenseInfo\<close>, with the two fields that \<^verbatim>\<open>license_test.go\<close> sets.\<close>

record LicenseInfo =
  Type :: string
  FilePath :: string

text \<open>
  The table of \<^verbatim>\<open>TestLicensesAreRedistributable\<close>, \<^verbatim>\<open>license_test.go\<close> lines 10
  to 61: the label of a case, its licenses, and the value the test wants from
  \<^verbatim>\<open>licensesAreRedistributable\<close>.
\<close>

definition TestLicensesAreRedistributable :: "(string \<times> LicenseInfo list \<times> bool) list" where
  "TestLicensesAreRedistributable =
     [(''redistributable license'',
       [\<lparr>Type = ''MIT'', FilePath = ''LICENSE''\<rparr>], True),
      (''no redistributable license at root'',
       [\<lparr>Type = ''MIT'', FilePath = ''bar/LICENSE''\<rparr>], False),
      (''no license'', [], False),
      (''non-redistributable license'',
       [\<lparr>Type = ''AGPL-3.0'', FilePath = ''LICENSE''\<rparr>], False),
      (''multiple redistributable'',
       [\<lparr>Type = ''BSD-3-Clause'', FilePath = ''LICENSE''\<rparr>,
        \<lparr>Type = ''MIT'', FilePath = ''bar/LICENSE''\<rparr>], True),
      (''not all redistributable'',
       [\<lparr>Type = ''BSD-3-Clause'', FilePath = ''LICENSE''\<rparr>,
        \<lparr>Type = ''AGPL-3.0'', FilePath = ''foo/LICENSE''\<rparr>,
        \<lparr>Type = ''MIT'', FilePath = ''foo/bar/LICENSE''\<rparr>], False),
      (''at least one redistributable per directory'',
       [\<lparr>Type = ''BSD-3-Clause'', FilePath = ''LICENSE''\<rparr>,
        \<lparr>Type = ''BSD-0-Clause'', FilePath = ''LICENSE.txt''\<rparr>,
        \<lparr>Type = ''AGPL-3.0'', FilePath = ''foo/LICENSE''\<rparr>,
        \<lparr>Type = ''MIT'', FilePath = ''foo/COPYING''\<rparr>], True)]"

text \<open>
  Modelled from the spec: the directory of a file path relative to the root, section 3
  of the specification: all path segments except the last, and \<^verbatim>\<open>.\<close> for a file of
  the root (what \<^verbatim>\<open>path.Dir\<close> returns on a clean relative path).
\<close>

definition Dir :: "string \<Rightarrow> string" where
  "Dir filePath =
     (case butlast (Split filePath CHR ''/'') of
        [] \<Rightarrow> ''.''
      | segments \<Rightarrow> Join segments ''/'')"

text \<open>
  Modelled from the spec: the partition of the records by directory, section 4.2 of
  the specification; the code that does it is outside the files at hand. The
  allow-list is the parameter \<open>allow\<close> (an injected set of strings, section 9), and a
  type matches by identity. One pass over the records maps a directory to whether one
  of its records so far has an allow-listed type.
\<close>

definition compliantDirs :: "string set \<Rightarrow> LicenseInfo list \<Rightarrow> (string \<rightharpoonup> bool)" where
  "compliantDirs allow licenses =
     fold (\<lambda>l m. m(Dir (FilePath l) \<mapsto> (Type l \<in> allow \<or> m (Dir (FilePath l)) = Some True)))
       licenses Map.empty"

text \<open>
  Modelled from the spec: the evaluator \<^verbatim>\<open>licensesAreRedistributable\<close>, whose body
  is outside the files at hand, in the words of sections 4.2 and 9 of the
  specification: an explicit guard, at least one license record anywhere, combined
  with the check that every directory that has records is compliant.
\<close>

definition licensesAreRedistributable :: "string set \<Rightarrow> LicenseInfo list \<Rightarrow> bool" where
  "licensesAreRedistributable allow licenses =
     (licenses \<noteq> [] \<and>
      list_all (\<lambda>l. compliantDirs allow licenses (Dir (FilePath l)) = Some True) licenses)"

section \<open>Facts about the string functions\<close>

lemma IndexByte_None: "IndexByte s c = None \<longleftrightarrow> c \<notin> set s"
  by (induction s) (auto split: option.splits)

lemma IndexByte_append: "c \<notin> set a \<Longrightarrow> IndexByte (a @ c # b) c = Some (length a)"
  by (induction a) auto

lemma IndexByte_takeWhile: "IndexByte s c = Some i \<Longrightarrow> take i s = takeWhile (\<lambda>x. x \<noteq> c) s"
  by (induction s arbitrary: i) (auto split: option.splits if_splits)

lemma takeWhile_absent: "c \<notin> set p \<Longrightarrow> takeWhile (\<lambda>x. x \<noteq> c) p = p"
  by (induction p) auto

lemma Contains_single: "Contains s [c] \<longleftrightarrow> c \<in> set s"
  by (induction s) (auto simp: HasPrefix_def)

lemma SplitN2_absent: "c \<notin> set s \<Longrightarrow> SplitN2 s c = [s]"
  by (simp add: SplitN2_def IndexByte_None[THEN iffD2])

lemma SplitN2_present: "c \<notin> set a \<Longrightarrow> SplitN2 (a @ c # b) c = [a, b]"
  by (simp add: SplitN2_def IndexByte_append)

lemma Split_nonempty: "Split s c \<noteq> []"
  by (induction s) (auto split: list.splits)

lemma Split_absent: "c \<notin> set s \<Longrightarrow> Split s c = [s]"
  by (induction s) auto

lemma Split_present: "c \<notin> set a \<Longrightarrow> Split (a @ c # b) c = a # Split b c"
  by (induction a) auto

lemma Split_append_sep: "Split (a @ c # b) c = Split a c @ Split b c"
  by (induction a) (auto split: list.splits simp: Split_nonempty)

text \<open>Joining the pieces of a split with the separator gives the string back.\<close>

lemma Join_Split: "Join (Split s c) [c] = s"
proof (induction s)
  case Nil
  show ?case by simp
next
  case (Cons x s)
  obtain piece pieces where sp: "Split s c = piece # pieces"
    using Split_nonempty[of s c] by (cases "Split s c") auto
  with Cons show ?case by (cases pieces) auto
qed

lemma Split_trailing:
  assumes "p \<noteq> []" and "last p = c"
  shows "[] \<in> set (Split p c)"
proof -
  from assms obtain a where "p = a @ c # []"
    by (metis append_butlast_last_id)
  then show ?thesis
    using Split_append_sep[of a c "[]"] by simp
qed

lemma TrimPrefix_slash: "TrimPrefix (CHR ''/'' # p) ''/'' = p"
  by (simp add: TrimPrefix_def HasPrefix_def)

lemma HasSuffix_slash: "HasSuffix p ''/'' \<longleftrightarrow> p \<noteq> [] \<and> last p = CHR ''/''"
  by (cases p rule: rev_cases) (auto simp: HasSuffix_def)

lemma segments_TrimSuffix: "[] \<notin> set (Split p CHR ''/'') \<Longrightarrow> TrimSuffix p ''/'' = p"
  using Split_trailing[of p "CHR ''/''"] by (auto simp: TrimSuffix_def HasSuffix_slash)

lemma segments_prefix:
  "[] \<notin> set (Split (m @ CHR ''/'' # s) CHR ''/'') \<Longrightarrow> [] \<notin> set (Split m CHR ''/'')"
  by (simp add: Split_append_sep)

section \<open>Properties of \<^verbatim>\<open>parseDetailsURLPath\<close>\<close>

text \<open>\<^verbatim>\<open>inStdLib\<close> looks at the first segment only: it holds when that segment has no dot.\<close>

lemma inStdLib_iff: "inStdLib p \<longleftrightarrow> CHR ''.'' \<notin> set (firstSegment p)"
proof (cases "IndexByte p CHR ''/''")
  case None
  then have "CHR ''/'' \<notin> set p"
    by (simp add: IndexByte_None)
  with None show ?thesis
    by (simp add: inStdLib_def firstSegment_def Contains_single takeWhile_absent)
next
  case (Some i)
  then show ?thesis
    by (simp add: inStdLib_def firstSegment_def Contains_single IndexByte_takeWhile)
qed

text \<open>The function on a path without \<^verbatim>\<open>@\<close>, and on a path split at its first \<^verbatim>\<open>@\<close>.\<close>

lemma parse_without_at:
  assumes "CHR ''@'' \<notin> set urlPath"
  shows "parseDetailsURLPath chk urlPath =
     (let p = TrimSuffix (TrimPrefix urlPath ''/'') ''/''
      in if \<not> chk p then Inl (MalformedPath p)
         else Inr (p, if inStdLib p then stdlib_ModulePath else unknownModulePath,
                   LatestVersion))"
  using assms by (simp add: parseDetailsURLPath_def SplitN2_absent Let_def)

lemma parse_with_at:
  assumes "CHR ''@'' \<notin> set a"
  shows "parseDetailsURLPath chk (a @ CHR ''@'' # b) =
     (let basePath = TrimSuffix (TrimPrefix a ''/'') ''/'';
          version = hd (Split b CHR ''/'');
          suffix = Join (tl (Split b CHR ''/'')) ''/'';
          ambiguous = (suffix = [] \<or> version = LatestVersion);
          p = (if ambiguous then basePath else basePath @ ''/'' @ suffix)
      in if \<not> chk p then Inl (MalformedPath p)
         else Inr (p, if inStdLib p then stdlib_ModulePath
                      else if ambiguous then unknownModulePath else basePath, version))"
  using assms Split_nonempty[of b "CHR ''/''"]
  by (auto simp add: parseDetailsURLPath_def SplitN2_present Let_def split: list.splits)

text \<open>
  Claim C4, as the specification states it, fails: the first segment \<^verbatim>\<open>a\<close> of the
  package path \<^verbatim>\<open>a/b/c\<close> has no dot, so \<^verbatim>\<open>inStdLib\<close> holds and the module path
  returned for \<^verbatim>\<open>/a/b@v1.2.3/c\<close> is the one of the standard library, not \<^verbatim>\<open>a/b\<close>.
\<close>

theorem parse_a_b_c_counterexample:
  "parseDetailsURLPath wellFormedPath ''/a/b@v1.2.3/c'' = Inr (''a/b/c'', ''std'', ''v1.2.3'') \<and>
   parseDetailsURLPath wellFormedPath ''/a/b@v1.2.3/c'' \<noteq> Inr (''a/b/c'', ''a/b'', ''v1.2.3'')"
  by code_simp

text \<open>
  Claim C4, amended: for every checker that accepts the two package paths,
  \<^verbatim>\<open>parseDetailsURLPath("/a/b@v1.2.3/c")\<close> returns package path \<^verbatim>\<open>a/b/c\<close> and version
  \<^verbatim>\<open>v1.2.3\<close>, and \<^verbatim>\<open>parseDetailsURLPath("/a/b@v1.2.3")\<close> returns package path
  \<^verbatim>\<open>a/b\<close> and version \<^verbatim>\<open>v1.2.3\<close>; in both the module path is the one of the standard
  library, the first segment \<^verbatim>\<open>a\<close> having no dot.
\<close>

theorem parse_a_b_examples:
  assumes "chk ''a/b/c''" and "chk ''a/b''"
  shows "parseDetailsURLPath chk ''/a/b@v1.2.3/c'' = Inr (''a/b/c'', stdlib_ModulePath, ''v1.2.3'') \<and>
         parseDetailsURLPath chk ''/a/b@v1.2.3'' = Inr (''a/b'', stdlib_ModulePath, ''v1.2.3'')"
  using assms
  by (simp add: parseDetailsURLPath_def SplitN2_def TrimPrefix_def TrimSuffix_def
      HasPrefix_def HasSuffix_def LatestVersion_def inStdLib_def)

theorem parse_a_b_examples_witness:
  "wellFormedPath ''a/b/c'' \<and> wellFormedPath ''a/b'' \<and>
   parseDetailsURLPath wellFormedPath ''/a/b@v1.2.3/c'' = Inr (''a/b/c'', ''std'', ''v1.2.3'') \<and>
   parseDetailsURLPath wellFormedPath ''/a/b@v1.2.3'' = Inr (''a/b'', ''std'', ''v1.2.3'')"
proof -
  have c1: "wellFormedPath ''a/b/c''" by (simp add: wellFormedPath_def)
  have c2: "wellFormedPath ''a/b''" by (simp add: wellFormedPath_def)
  show ?thesis
    using c1 c2 parse_a_b_examples[OF c1 c2] by (simp add: stdlib_ModulePath_def)
qed

text \<open>
  With a dot in the first segment the two shapes of the claim come out as it says: the
  base path is the module path when a suffix follows the version, and the module path is
  unknown when none does.
\<close>

lemma parse_dotted_examples:
  assumes "chk ''a.x/b/c''" and "chk ''a.x/b''"
  shows "parseDetailsURLPath chk ''/a.x/b@v1.2.3/c'' = Inr (''a.x/b/c'', ''a.x/b'', ''v1.2.3'')"
    and "parseDetailsURLPath chk ''/a.x/b@v1.2.3'' = Inr (''a.x/b'', unknownModulePath, ''v1.2.3'')"
  using assms
  by (simp_all add: parseDetailsURLPath_def SplitN2_def TrimPrefix_def TrimSuffix_def
      HasPrefix_def HasSuffix_def LatestVersion_def inStdLib_def)

text \<open>
  Claim C5, as the specification states it, fails: \<^verbatim>\<open>/fmt\<close> has no \<^verbatim>\<open>@\<close> and its
  path is well formed, yet the module path returned is the one of the standard library,
  not the unknown-module sentinel.
\<close>

theorem parse_fmt_counterexample:
  "CHR ''@'' \<notin> set ''/fmt'' \<and> wellFormedPath ''fmt'' \<and>
   parseDetailsURLPath wellFormedPath ''/fmt'' = Inr (''fmt'', ''std'', ''latest'') \<and>
   parseDetailsURLPath wellFormedPath ''/fmt'' \<noteq> Inr (''fmt'', unknownModulePath, LatestVersion)"
  by code_simp

text \<open>
  Claim C5, amended: for every URL path that contains no \<^verbatim>\<open>@\<close> and whose trimmed
  path the checker accepts, \<^verbatim>\<open>parseDetailsURLPath\<close> succeeds and returns the trimmed
  path as package path and the latest sentinel as version; the module path is the
  unknown-module sentinel when the first segment of the path contains a dot, and the
  module path of the standard library when it does not.
\<close>

theorem parse_without_version:
  assumes "CHR ''@'' \<notin> set urlPath"
    and "chk (TrimSuffix (TrimPrefix urlPath ''/'') ''/'')"
  shows "parseDetailsURLPath chk urlPath =
           Inr (TrimSuffix (TrimPrefix urlPath ''/'') ''/'',
                if CHR ''.'' \<in> set (firstSegment (TrimSuffix (TrimPrefix urlPath ''/'') ''/''))
                then unknownModulePath else stdlib_ModulePath,
                LatestVersion)"
  using assms by (simp add: parse_without_at Let_def inStdLib_iff)

theorem parse_without_version_witness:
  "CHR ''@'' \<notin> set ''/github.com/x/y'' \<and>
   wellFormedPath (TrimSuffix (TrimPrefix ''/github.com/x/y'' ''/'') ''/'') \<and>
   parseDetailsURLPath wellFormedPath ''/github.com/x/y'' =
     Inr (''github.com/x/y'', ''<unknown>'', ''latest'')"
proof -
  have a: "CHR ''@'' \<notin> set ''/github.com/x/y''" by simp
  have t: "TrimSuffix (TrimPrefix ''/github.com/x/y'' ''/'') ''/'' = ''github.com/x/y''"
    by (simp add: TrimSuffix_def TrimPrefix_def HasPrefix_def HasSuffix_def)
  have c: "wellFormedPath (TrimSuffix (TrimPrefix ''/github.com/x/y'' ''/'') ''/'')"
    unfolding t by (simp add: wellFormedPath_def)
  show ?thesis
    using a c
      parse_without_version[where urlPath = "''/github.com/x/y''" and chk = wellFormedPath, OF a c]
    by (simp add: t firstSegment_def unknownModulePath_def LatestVersion_def)
qed

text \<open>
  Claim C6: whenever \<^verbatim>\<open>parseDetailsURLPath\<close> succeeds, a package path whose first
  segment has no dot comes with the module path of the standard library, whatever the
  earlier steps computed; and when the first segment has a dot the module path is not
  the one of the standard library: it is what the earlier steps computed, the
  unknown-module sentinel or the base path in front of a non-empty suffix.
\<close>

theorem parse_stdlib_override:
  assumes "parseDetailsURLPath chk urlPath = Inr (p, m, v)"
  shows "(CHR ''.'' \<notin> set (firstSegment p) \<longrightarrow> m = stdlib_ModulePath) \<and>
         (CHR ''.'' \<in> set (firstSegment p) \<longrightarrow>
            m \<noteq> stdlib_ModulePath \<and>
            (m = unknownModulePath \<or> (\<exists>suffix. suffix \<noteq> [] \<and> p = m @ ''/'' @ suffix)))"
proof (cases "CHR ''@'' \<in> set urlPath")
  case False
  with assms show ?thesis
    by (auto simp: parse_without_at Let_def inStdLib_iff
        unknownModulePath_def stdlib_ModulePath_def split: if_splits)
next
  case True
  then obtain a b where u: "urlPath = a @ CHR ''@'' # b" and a: "CHR ''@'' \<notin> set a"
    by (meson split_list_first)
  have dot: "CHR ''.'' \<notin> set (firstSegment (''std'' @ ''/'' @ s))" for s
    by (simp add: firstSegment_def)
  from assms show ?thesis
    unfolding u parse_with_at[OF a] Let_def
    using dot
    by (auto simp: inStdLib_iff unknownModulePath_def stdlib_ModulePath_def split: if_splits)
qed

theorem parse_stdlib_override_witness:
  "parseDetailsURLPath wellFormedPath ''/fmt'' = Inr (''fmt'', ''std'', ''latest'') \<and>
   CHR ''.'' \<notin> set (firstSegment ''fmt'') \<and>
   parseDetailsURLPath wellFormedPath ''/github.com/x/y@v1.2.3/z'' =
     Inr (''github.com/x/y/z'', ''github.com/x/y'', ''v1.2.3'') \<and>
   CHR ''.'' \<in> set (firstSegment ''github.com/x/y/z'') \<and>
   ''github.com/x/y'' \<noteq> stdlib_ModulePath"
proof -
  have f: "parseDetailsURLPath wellFormedPath ''/fmt'' = Inr (''fmt'', ''std'', ''latest'')"
    by code_simp
  have g: "parseDetailsURLPath wellFormedPath ''/github.com/x/y@v1.2.3/z'' =
             Inr (''github.com/x/y/z'', ''github.com/x/y'', ''v1.2.3'')"
    by code_simp
  show ?thesis
    using f g parse_stdlib_override[OF f] parse_stdlib_override[OF g]
    by (simp add: firstSegment_def)
qed

text \<open>
  Claim C10: the round trip. For every package path \<open>p\<close> that the checker accepts and
  that is well formed (non-empty segments, no \<^verbatim>\<open>@\<close>), every module path \<open>m\<close> that is
  \<open>p\<close>, the module path of the standard library, or in front of a slash and a non-empty
  rest of \<open>p\<close>, and every version \<open>v\<close> that is the latest sentinel or a valid version
  without slash, parsing the URL that \<^verbatim>\<open>constructPackageURL\<close> builds succeeds and
  returns the package path \<open>p\<close> and the version \<open>v\<close>.
\<close>

theorem construct_parse_roundtrip:
  assumes chk: "chk p" and wf: "wellFormedPath p"
    and m: "m = p \<or> m = stdlib_ModulePath \<or> (\<exists>s. s \<noteq> [] \<and> p = m @ ''/'' @ s)"
    and v: "v = LatestVersion \<or> (IsValid v \<and> CHR ''/'' \<notin> set v)"
  shows "\<exists>m'. parseDetailsURLPath chk (constructPackageURL p m v) = Inr (p, m', v)"
proof -
  from wf have at: "CHR ''@'' \<notin> set p" and seg: "[] \<notin> set (Split p CHR ''/'')"
    by (simp_all add: wellFormedPath_def)
  have trim: "TrimSuffix (TrimPrefix (CHR ''/'' # p) ''/'') ''/'' = p"
    by (simp add: TrimPrefix_slash segments_TrimSuffix[OF seg])
  show ?thesis
  proof (cases "v = LatestVersion")
    case True
    then have "constructPackageURL p m v = CHR ''/'' # p"
      by (simp add: constructPackageURL_def)
    moreover have "CHR ''@'' \<notin> set (CHR ''/'' # p)"
      using at by simp
    ultimately show ?thesis
      using chk True trim by (simp add: parse_without_at Let_def)
  next
    case specific: False
    with v have vs: "CHR ''/'' \<notin> set v" by simp
    show ?thesis
    proof (cases "p = m \<or> m = stdlib_ModulePath")
      case True
      then have url: "constructPackageURL p m v = (CHR ''/'' # p) @ CHR ''@'' # v"
        using specific by (auto simp: constructPackageURL_def)
      have a: "CHR ''@'' \<notin> set (CHR ''/'' # p)"
        using at by simp
      show ?thesis
        unfolding url parse_with_at[OF a]
        using chk trim by (simp add: Let_def Split_absent[OF vs])
    next
      case False
      with m obtain s where s: "s \<noteq> []" "p = m @ ''/'' @ s" by auto
      have tp: "TrimPrefix p (m @ ''/'') = s"
        using s by (simp add: TrimPrefix_def HasPrefix_def)
      have url: "constructPackageURL p m v = (CHR ''/'' # m) @ CHR ''@'' # (v @ CHR ''/'' # s)"
        using specific False tp by (auto simp: constructPackageURL_def)
      have a: "CHR ''@'' \<notin> set (CHR ''/'' # m)"
        using at s by simp
      have segm: "[] \<notin> set (Split m CHR ''/'')"
        using seg s segments_prefix[of m s] by simp
      have trimm: "TrimSuffix (TrimPrefix (CHR ''/'' # m) ''/'') ''/'' = m"
        by (simp add: TrimPrefix_slash segments_TrimSuffix[OF segm])
      have sp: "Split (v @ CHR ''/'' # s) CHR ''/'' = v # Split s CHR ''/''"
        by (rule Split_present[OF vs])
      have js: "Join (Split s CHR ''/'') ''/'' = s"
        by (rule Join_Split)
      show ?thesis
        unfolding url parse_with_at[OF a]
        using chk s specific by (simp add: Let_def sp js trimm)
    qed
  qed
qed

theorem construct_parse_roundtrip_witness:
  "wellFormedPath ''a.b/c/d'' \<and>
   (''v1.0.0'' = LatestVersion \<or> (semverCore ''v1.0.0'' \<and> CHR ''/'' \<notin> set ''v1.0.0'')) \<and>
   constructPackageURL ''a.b/c/d'' ''a.b/c'' ''v1.0.0'' = ''/a.b/c@v1.0.0/d'' \<and>
   (\<exists>m'. parseDetailsURLPath wellFormedPath (constructPackageURL ''a.b/c/d'' ''a.b/c'' ''v1.0.0'')
           = Inr (''a.b/c/d'', m', ''v1.0.0''))"
proof -
  have c: "wellFormedPath ''a.b/c/d''"
    by (simp add: wellFormedPath_def)
  have m: "''a.b/c'' = ''a.b/c/d'' \<or> ''a.b/c'' = stdlib_ModulePath \<or>
           (\<exists>s. s \<noteq> [] \<and> ''a.b/c/d'' = ''a.b/c'' @ ''/'' @ s)"
    by simp
  have v: "''v1.0.0'' = LatestVersion \<or> (semverCore ''v1.0.0'' \<and> CHR ''/'' \<notin> set ''v1.0.0'')"
    by (simp add: semverCore_def isDigits_def)
  have u: "constructPackageURL ''a.b/c/d'' ''a.b/c'' ''v1.0.0'' = ''/a.b/c@v1.0.0/d''"
    by (simp add: constructPackageURL_def LatestVersion_def stdlib_ModulePath_def
        TrimPrefix_def HasPrefix_def)
  show ?thesis
    using c v u
      construct_parse_roundtrip[where chk = wellFormedPath and p = "''a.b/c/d''"
        and m = "''a.b/c''" and v = "''v1.0.0''" and IsValid = semverCore, OF c c m v]
    by simp
qed

section \<open>Properties of \<^verbatim>\<open>handlePackageDetails\<close>\<close>

text \<open>
  Claim C9, as stated, fails at the latest sentinel literal: \<^verbatim>\<open>/std@latest\<close> does not
  start with \<^verbatim>\<open>/std@v\<close>, so the handler parses it as a package path and looks the
  package \<^verbatim>\<open>std\<close> up instead of handing the request to the module handler.
\<close>

theorem std_latest_counterexample:
  "handlePackageDetails wellFormedPath ''/std@latest'' = PackageLookup ''std'' ''std'' ''latest'' \<and>
   handlePackageDetails wellFormedPath ''/std@latest'' \<noteq> ModuleDetailsHandler"
  by code_simp

text \<open>
  Claim C9, amended: the handler hands the path \<^verbatim>\<open>/std\<close> to the module handler, and
  it hands a path \<^verbatim>\<open>/std@version\<close> to the module handler exactly when the version
  starts with the letter \<^verbatim>\<open>v\<close>, in both cases before any parsing of the path (the
  checker plays no part).
\<close>

theorem std_alias_dispatch:
  "handlePackageDetails chk ''/std'' = ModuleDetailsHandler \<and>
   (handlePackageDetails chk (''/std@'' @ version) = ModuleDetailsHandler
      \<longleftrightarrow> HasPrefix version ''v'')"
  by (auto simp: handlePackageDetails_def HasPrefix_def split: sum.splits)

theorem std_alias_dispatch_witness:
  "HasPrefix ''v1.13.0'' ''v'' \<and>
   handlePackageDetails (\<lambda>p. False) ''/std'' = ModuleDetailsHandler \<and>
   handlePackageDetails (\<lambda>p. False) ''/std@v1.13.0'' = ModuleDetailsHandler"
  using std_alias_dispatch[of "\<lambda>p. False" "''v1.13.0''"] by (simp add: HasPrefix_def)

section \<open>Properties of \<^verbatim>\<open>fetchPackageOrModule\<close>\<close>

text \<open>
  When the first lookup is made: the version passed validation, the exclusion predicate
  returned without error, and it did not report the path excluded.
\<close>

lemma first_lookup_made_iff:
  "GetCall version \<in> set (snd (fetchPackageOrModule IsValid quoted suggestedSearch
      IsExcluded namespace path version get))
   \<longleftrightarrow> (version = LatestVersion \<or> IsValid version) \<and> IsExcluded path = Inr False"
  by (auto simp: fetchPackageOrModule_def Let_def split: sum.splits option.splits)

text \<open>
  Claim C3: for every path and every version other than the latest sentinel, if the
  first lookup fails with a not-found error (the version is valid and the path is not
  excluded, so the lookup is made), then the result is status \<open>SeeOther\<close> with an error
  page when the second lookup, of the latest version, succeeds, and status \<open>NotFound\<close>
  without an error page when the second lookup fails, whatever its error.
\<close>

theorem fetch_retry_latest:
  assumes "version \<noteq> LatestVersion"
    and "IsValid version"
    and "IsExcluded path = Inr False"
    and "get version = Some NotFound"
  shows "(get LatestVersion = None \<longrightarrow>
            fst (fst (fetchPackageOrModule IsValid quoted suggestedSearch
                        IsExcluded namespace path version get)) = StatusSeeOther \<and>
            snd (fst (fetchPackageOrModule IsValid quoted suggestedSearch
                        IsExcluded namespace path version get)) \<noteq> None) \<and>
         (get LatestVersion \<noteq> None \<longrightarrow>
            fst (fetchPackageOrModule IsValid quoted suggestedSearch
                   IsExcluded namespace path version get) = (StatusNotFound, None))"
  using assms
  by (auto simp: fetchPackageOrModule_def Let_def split: option.splits)

theorem fetch_retry_latest_witness:
  "fst (fst (fetchPackageOrModule semverCore (\<lambda>s. s) (\<lambda>p. []) (\<lambda>p. Inr False) ''pkg''
               ''example.com/x'' ''v1.0.0''
               (\<lambda>v. if v = LatestVersion then None else Some NotFound))) = StatusSeeOther \<and>
   snd (fst (fetchPackageOrModule semverCore (\<lambda>s. s) (\<lambda>p. []) (\<lambda>p. Inr False) ''pkg''
               ''example.com/x'' ''v1.0.0''
               (\<lambda>v. if v = LatestVersion then None else Some NotFound))) \<noteq> None \<and>
   fst (fetchPackageOrModule semverCore (\<lambda>s. s) (\<lambda>p. []) (\<lambda>p. Inr False) ''pkg''
          ''example.com/x'' ''v1.0.0'' (\<lambda>v. Some NotFound)) = (StatusNotFound, None) \<and>
   fst (fetchPackageOrModule semverCore (\<lambda>s. s) (\<lambda>p. []) (\<lambda>p. Inr False) ''pkg''
          ''example.com/x'' ''v1.0.0''
          (\<lambda>v. if v = LatestVersion then Some OtherError else Some NotFound))
     = (StatusNotFound, None)"
proof -
  let ?ex = "\<lambda>p::string. Inr False :: ds_error + bool"
  let ?g1 = "\<lambda>v. if v = LatestVersion then None else Some NotFound"
  let ?g2 = "\<lambda>v::string. Some NotFound"
  let ?g3 = "\<lambda>v. if v = LatestVersion then Some OtherError else Some NotFound"
  have nl: "''v1.0.0'' \<noteq> LatestVersion"
    by (simp add: LatestVersion_def)
  have ok: "semverCore ''v1.0.0''"
    by (simp add: semverCore_def isDigits_def)
  have ex: "?ex ''example.com/x'' = Inr False" by simp
  have f1: "?g1 ''v1.0.0'' = Some NotFound" using nl by simp
  have f2: "?g2 ''v1.0.0'' = Some NotFound" by simp
  have f3: "?g3 ''v1.0.0'' = Some NotFound" using nl by simp
  show ?thesis
    using fetch_retry_latest[where get = ?g1 and IsValid = semverCore and IsExcluded = ?ex
            and path = "''example.com/x''" and quoted = "\<lambda>s. s"
            and suggestedSearch = "\<lambda>p. []" and namespace = "''pkg''", OF nl ok ex f1]
          fetch_retry_latest[where get = ?g2 and IsValid = semverCore and IsExcluded = ?ex
            and path = "''example.com/x''" and quoted = "\<lambda>s. s"
            and suggestedSearch = "\<lambda>p. []" and namespace = "''pkg''", OF nl ok ex f2]
          fetch_retry_latest[where get = ?g3 and IsValid = semverCore and IsExcluded = ?ex
            and path = "''example.com/x''" and quoted = "\<lambda>s. s"
            and suggestedSearch = "\<lambda>p. []" and namespace = "''pkg''", OF nl ok ex f3]
    by simp
qed

text \<open>
  A version that is neither the latest sentinel nor valid is rejected before any
  collaborator is called, whether the path is excluded or not.
\<close>

lemma fetch_invalid_version:
  assumes "version \<noteq> LatestVersion" and "\<not> IsValid version"
  shows "fst (fst (fetchPackageOrModule IsValid quoted suggestedSearch
                     IsExcluded namespace path version get)) = StatusBadRequest"
    and "snd (fetchPackageOrModule IsValid quoted suggestedSearch
                IsExcluded namespace path version get) = []"
  using assms by (simp_all add: fetchPackageOrModule_def)

text \<open>
  Claim C7, as stated for every version, fails: the version is validated before the
  exclusion predicate is consulted, so an excluded path asked for with the version
  \<^verbatim>\<open>bogus\<close> gets status \<open>BadRequest\<close> with an error page, not \<open>NotFound\<close>.
\<close>

theorem excluded_invalid_version_counterexample:
  "fetchPackageOrModule semverCore (\<lambda>s. s) (\<lambda>p. []) (\<lambda>p. Inr True) ''pkg''
     ''example.com/x'' ''bogus'' (\<lambda>v. Some NotFound)
     = ((400, Some \<lparr>Message = ''bogus is not a valid semantic version.'',
                    SecondaryMessage = []\<rparr>), []) \<and>
   fst (fetchPackageOrModule semverCore (\<lambda>s. s) (\<lambda>p. []) (\<lambda>p. Inr True) ''pkg''
          ''example.com/x'' ''bogus'' (\<lambda>v. Some NotFound)) \<noteq> (StatusNotFound, None)"
  by (simp add: fetchPackageOrModule_def semverCore_def LatestVersion_def
      StatusBadRequest_def StatusNotFound_def)

text \<open>
  Claim C7, amended: for every path and every version that passes validation (the
  latest sentinel or a valid version), if the exclusion predicate reports the path
  excluded, the result is status \<open>NotFound\<close> without an error page, the only call made
  is the one of the exclusion predicate (the lookup is not invoked), and the status and
  the error page are those of a path that is not excluded and whose lookups all fail
  with a not-found error.
\<close>

theorem excluded_as_not_found:
  assumes "version = LatestVersion \<or> IsValid version"
    and "IsExcluded path = Inr True"
    and "IsExcluded path' = Inr False"
    and "get' version = Some NotFound" and "get' LatestVersion = Some NotFound"
  shows "fetchPackageOrModule IsValid quoted suggestedSearch IsExcluded namespace path version get
           = ((StatusNotFound, None), [IsExcludedCall path]) \<and>
         fst (fetchPackageOrModule IsValid quoted suggestedSearch IsExcluded namespace path'
                version get')
           = fst (fetchPackageOrModule IsValid quoted suggestedSearch IsExcluded namespace path
                    version get)"
  using assms by (auto simp: fetchPackageOrModule_def Let_def)

theorem excluded_as_not_found_witness:
  "fetchPackageOrModule semverCore (\<lambda>s. s) (\<lambda>p. []) (\<lambda>p. Inr (p = ''excluded.example/x''))
     ''pkg'' ''excluded.example/x'' ''v1.0.0'' (\<lambda>v. None)
     = ((StatusNotFound, None), [IsExcludedCall ''excluded.example/x'']) \<and>
   fst (fetchPackageOrModule semverCore (\<lambda>s. s) (\<lambda>p. []) (\<lambda>p. Inr (p = ''excluded.example/x''))
          ''pkg'' ''absent.example/y'' ''v1.0.0'' (\<lambda>v. Some NotFound))
     = (StatusNotFound, None)"
proof -
  let ?ex = "\<lambda>p. Inr (p = ''excluded.example/x'') :: ds_error + bool"
  let ?absent = "\<lambda>v::string. Some NotFound"
  have ok: "''v1.0.0'' = LatestVersion \<or> semverCore ''v1.0.0''"
    by (simp add: semverCore_def isDigits_def)
  have e1: "?ex ''excluded.example/x'' = Inr True" by simp
  have e2: "?ex ''absent.example/y'' = Inr False" by simp
  have g1: "?absent ''v1.0.0'' = Some NotFound" by simp
  have g2: "?absent LatestVersion = Some NotFound" by simp
  show ?thesis
    using excluded_as_not_found[where IsValid = semverCore and IsExcluded = ?ex
        and get' = ?absent and version = "''v1.0.0''" and path = "''excluded.example/x''"
        and path' = "''absent.example/y''" and quoted = "\<lambda>s. s" and suggestedSearch = "\<lambda>p. []"
        and namespace = "''pkg''" and get = "\<lambda>v. None", OF ok e1 e2 g1 g2]
    by simp
qed

section \<open>The default tab\<close>

lemma packageTabLookup_doc:
  "packageTabLookup ''doc'' = Some \<lparr>Name = ''doc'', DisplayName = ''Doc'',
     AlwaysShowDetails = False, TemplateName = ''pkg_doc.tmpl''\<rparr>"
  by (simp add: packageTabLookup_def tabLookup_def packageTabSettings_def)

lemma packageTabLookup_subdirectories:
  "packageTabLookup ''subdirectories'' = Some \<lparr>Name = ''subdirectories'',
     DisplayName = ''Subdirectories'', AlwaysShowDetails = True,
     TemplateName = ''subdirectories.tmpl''\<rparr>"
  by (simp add: packageTabLookup_def tabLookup_def packageTabSettings_def)

lemma moduleTabLookup_readme:
  "moduleTabLookup ''readme'' = Some \<lparr>Name = ''readme'', DisplayName = ''README'',
     AlwaysShowDetails = False, TemplateName = ''readme.tmpl''\<rparr>"
  by (simp add: moduleTabLookup_def tabLookup_def moduleTabSettings_def)

text \<open>The names under which the two registries hold settings.\<close>

lemma tab_names:
  "dom packageTabLookup =
     {''doc'', ''readme'', ''subdirectories'', ''versions'', ''imports'', ''importedby'',
      ''licenses''}"
  "dom moduleTabLookup = {''readme'', ''packages'', ''versions'', ''licenses''}"
  by (auto simp: packageTabLookup_def moduleTabLookup_def tabLookup_def
      packageTabSettings_def moduleTabSettings_def split: if_splits)

text \<open>
  Claim C8: when the requested tab is not in the registry of package tabs, the package
  page gets the tab \<^verbatim>\<open>doc\<close> if the package is redistributable and the tab
  \<^verbatim>\<open>subdirectories\<close> otherwise; when it is not in the registry of module tabs, the
  module page gets the tab \<^verbatim>\<open>readme\<close>, redistributable or not. In each case the
  settings used are those the registry holds for the tab chosen.
\<close>

theorem default_tab:
  "(packageTabLookup tab = None \<longrightarrow>
      fst (servePackagePage_tab tab isRedistributable) =
        (if isRedistributable then ''doc'' else ''subdirectories'') \<and>
      packageTabLookup (fst (servePackagePage_tab tab isRedistributable)) =
        Some (fst (snd (servePackagePage_tab tab isRedistributable)))) \<and>
   (moduleTabLookup tab = None \<longrightarrow>
      fst (handleModuleDetails_tab tab isRedistributable) = ''readme'' \<and>
      moduleTabLookup ''readme'' =
        Some (fst (snd (handleModuleDetails_tab tab isRedistributable))))"
  by (simp add: servePackagePage_tab_def handleModuleDetails_tab_def mapIndex_def Let_def
      packageTabLookup_doc packageTabLookup_subdirectories moduleTabLookup_readme)

theorem default_tab_witness:
  "packageTabLookup ''nosuchtab'' = None \<and> moduleTabLookup ''nosuchtab'' = None \<and>
   fst (servePackagePage_tab ''nosuchtab'' True) = ''doc'' \<and>
   fst (servePackagePage_tab ''nosuchtab'' False) = ''subdirectories'' \<and>
   fst (handleModuleDetails_tab ''nosuchtab'' True) = ''readme'' \<and>
   fst (handleModuleDetails_tab ''nosuchtab'' False) = ''readme''"
proof -
  have p: "packageTabLookup ''nosuchtab'' = None"
    by (simp add: packageTabLookup_def tabLookup_def packageTabSettings_def)
  have m: "moduleTabLookup ''nosuchtab'' = None"
    by (simp add: moduleTabLookup_def tabLookup_def moduleTabSettings_def)
  show ?thesis
    using p m default_tab[of "''nosuchtab''" True] default_tab[of "''nosuchtab''" False]
    by simp
qed

section \<open>Properties of the redistributability evaluator\<close>




text \<open>
  The evaluator returns what \<^verbatim>\<open>TestLicensesAreRedistributable\<close> wants in every case
  but \<^verbatim>\<open>no redistributable license at root\<close>, for every allow-list that holds
  \<^verbatim>\<open>MIT\<close> and \<^verbatim>\<open>BSD-3-Clause\<close> and does not hold \<^verbatim>\<open>AGPL-3.0\<close>.
\<close>

lemma evaluator_on_test_table:
  assumes "''MIT'' \<in> allow" and "''BSD-3-Clause'' \<in> allow" and "''AGPL-3.0'' \<notin> allow"
  shows "list_all (\<lambda>(label, licenses, want).
                     label = ''no redistributable license at root'' \<or>
                     licensesAreRedistributable allow licenses = want)
           TestLicensesAreRedistributable"
  using assms
  by (simp add: TestLicensesAreRedistributable_def licensesAreRedistributable_def
      compliantDirs_def Dir_def)




text \<open>
  Claim C2: for every allow-list that holds \<^verbatim>\<open>MIT\<close> and does not hold \<^verbatim>\<open>AGPL-3.0\<close>,
  the evaluator returns false on the empty list of records, true on an \<^verbatim>\<open>MIT\<close> license
  in \<^verbatim>\<open>LICENSE\<close>, false when an \<^verbatim>\<open>AGPL-3.0\<close> license in \<^verbatim>\<open>sub/LICENSE\<close> is added
  to it, and true when an \<^verbatim>\<open>MIT\<close> license in \<^verbatim>\<open>sub/LICENSE\<close> is added instead.
\<close>

theorem licensesAreRedistributable_examples:
  assumes "''MIT'' \<in> allow" and "''AGPL-3.0'' \<notin> allow"
  shows "\<not> licensesAreRedistributable allow [] \<and>
         licensesAreRedistributable allow [\<lparr>Type = ''MIT'', FilePath = ''LICENSE''\<rparr>] \<and>
         \<not> licensesAreRedistributable allow
             [\<lparr>Type = ''MIT'', FilePath = ''LICENSE''\<rparr>,
              \<lparr>Type = ''AGPL-3.0'', FilePath = ''sub/LICENSE''\<rparr>] \<and>
         licensesAreRedistributable allow
             [\<lparr>Type = ''MIT'', FilePath = ''LICENSE''\<rparr>,
              \<lparr>Type = ''MIT'', FilePath = ''sub/LICENSE''\<rparr>]"
  using assms
  by (simp add: licensesAreRedistributable_def compliantDirs_def Dir_def)

theorem licensesAreRedistributable_examples_witness:
  "''MIT'' \<in> {''MIT'', ''BSD-3-Clause''} \<and> ''AGPL-3.0'' \<notin> {''MIT'', ''BSD-3-Clause''} \<and>
   \<not> licensesAreRedistributable {''MIT'', ''BSD-3-Clause''} [] \<and>
   licensesAreRedistributable {''MIT'', ''BSD-3-Clause''}
     [\<lparr>Type = ''MIT'', FilePath = ''LICENSE''\<rparr>] \<and>
   \<not> licensesAreRedistributable {''MIT'', ''BSD-3-Clause''}
       [\<lparr>Type = ''MIT'', FilePath = ''LICENSE''\<rparr>,
        \<lparr>Type = ''AGPL-3.0'', FilePath = ''sub/LICENSE''\<rparr>] \<and>
   licensesAreRedistributable {''MIT'', ''BSD-3-Clause''}
     [\<lparr>Type = ''MIT'', FilePath = ''LICENSE''\<rparr>,
      \<lparr>Type = ''MIT'', FilePath = ''sub/LICENSE''\<rparr>]"
  using licensesAreRedistributable_examples[of "{''MIT'', ''BSD-3-Clause''}"] by simp

end
